theory Spec2Isabelle
  imports Complex_Main
begin

section \<open>Data model (src/lib/types.ts)\<close>

text \<open>
  The session controller is the React hook \<open>useTranscription\<close> together with the
  polling loop and the push channel of \<open>TranscriptionAPI\<close>.  JavaScript numbers are
  modelled as reals (no NaN, no infinities), and the one place where the controller
  computes with them rounds as IEEE double precision does (section on JavaScript
  arithmetic); strings are lists of UTF-8 bytes (only
  equality and emptiness of strings are used by the code), an optional field
  \<open>x?: T\<close> as \<open>T option\<close>.  Record fields keep the names of the source; where two
  interfaces share a field name, or the name is reserved in Isabelle (\<open>text\<close>, \<open>file\<close>,
  \<open>size\<close>, \<open>txt\<close>), the field or constructor carries a prefix.
\<close>

datatype TaskStatus = pending | processing | completed | failed

datatype ModelSize = tiny | base | small | medium | large

datatype DeviceType = cpu | cuda | auto

datatype OutputFormat = fmt_json | fmt_txt | fmt_srt | fmt_vtt | fmt_all

record TranscriptionSegment =
  seg_id :: int
  seg_start :: real
  seg_end :: real
  seg_text :: string
  tokens :: "int list option"
  seg_temperature :: "real option"
  avg_logprob :: "real option"
  compression_ratio :: "real option"
  no_speech_prob :: "real option"

record TranscriptionResponse =
  task_id :: string
  r_status :: TaskStatus
  r_text :: "string option"
  segments :: "TranscriptionSegment list option"
  language :: "string option"
  duration :: "real option"
  processing_time :: "real option"
  model_size :: "ModelSize option"
  device :: "DeviceType option"
  word_count :: "int option"
  character_count :: "int option"
  output_files :: "(string \<times> string) list option"
  r_error :: "string option"
  created_at :: string
  completed_at :: "string option"

record TranscriptionRequest =
  req_model_size :: "ModelSize option"
  req_language :: "string option"
  req_device :: "DeviceType option"
  apply_vad :: "bool option"
  normalize_audio :: "bool option"
  output_format :: "OutputFormat option"
  initial_prompt :: "string option"
  req_temperature :: "real option"

record FileUploadResponse =
  file_id :: string
  filename :: string
  fu_size :: int
  path :: string

record FileInfo =
  fi_filename :: string
  fi_format :: string
  fi_duration :: real
  duration_minutes :: real
  sample_rate :: int
  channels :: int
  codec :: "string option"
  bit_rate :: "int option"
  file_size :: int
  file_size_mb :: real

text \<open>The browser's \<open>File\<close>: the controller reads only its name.\<close>

record File =
  name :: string
  byte_size :: nat

record UploadState =
  u_file :: "File option"
  uploading :: bool
  u_progress :: real
  u_error :: "string option"

record TranscriptionState =
  taskId :: "string option"
  status :: TaskStatus
  progress :: real
  stage :: "string option"
  message :: "string option"
  result :: "TranscriptionResponse option"
  error :: "string option"

text \<open>
  \<open>class APIError extends Error\<close> with its message and optional HTTP status; any
  other thrown value is an \<open>OtherError\<close>.
\<close>

datatype Error = APIError string "nat option" | OtherError string

section \<open>JavaScript \<open>||\<close> on optional numbers and strings\<close>

text \<open>
  \<open>x || d\<close> yields \<open>d\<close> when \<open>x\<close> is falsy: \<open>undefined\<close>, the number \<open>0\<close> or the
  empty string.
\<close>

definition or_number :: "real option \<Rightarrow> real \<Rightarrow> real" where
  "or_number x d = (case x of None \<Rightarrow> d | Some v \<Rightarrow> if v = 0 then d else v)"

definition or_string :: "string option \<Rightarrow> string \<Rightarrow> string" where
  "or_string x d = (case x of None \<Rightarrow> d | Some v \<Rightarrow> if v = [] then d else v)"

definition or_string_opt :: "string option \<Rightarrow> string option \<Rightarrow> string option" where
  "or_string_opt x d = (case x of None \<Rightarrow> d | Some v \<Rightarrow> if v = [] then d else Some v)"

section \<open>JavaScript arithmetic\<close>

text \<open>
  A JavaScript number is an IEEE double, and \<open>*\<close> and \<open>+\<close> return the exact result
  rounded to the nearest double, ties to the even significand.  \<open>binade x\<close> is the
  exponent \<open>e\<close> with \<open>2^e \<le> x < 2^(e+1)\<close> for positive \<open>x\<close>, \<open>pow2 (binade x - 52)\<close>
  the spacing of the doubles there, \<open>rne\<close> rounds to the nearest integer, ties to
  even.  The exponent range is not bounded (no overflow, no subnormal numbers): the
  controller computes one product below 50 and its sum with 25, and a product too
  small to be a normal double changes nothing in that sum.
\<close>

definition rne :: "real \<Rightarrow> int" where
  "rne y = (let f = \<lfloor>y\<rfloor> in
     if y - of_int f < 1/2 then f
     else if 1/2 < y - of_int f then f + 1
     else if even f then f else f + 1)"

function binade_up :: "real \<Rightarrow> int" where
  "binade_up x = (if x < 2 then 0 else binade_up (x / 2) + 1)"
  by pat_completeness auto
termination
proof (relation "measure (\<lambda>x. nat \<lfloor>x\<rfloor>)")
  show "wf (measure (\<lambda>x::real. nat \<lfloor>x\<rfloor>))" by simp
next
  fix x :: real
  assume x: "\<not> x < 2"
  have "of_int \<lfloor>x / 2\<rfloor> \<le> x / 2" by (rule of_int_floor_le)
  moreover have "x - 1 < of_int \<lfloor>x\<rfloor>" by linarith
  ultimately have "(of_int \<lfloor>x / 2\<rfloor> :: real) < of_int \<lfloor>x\<rfloor>" using x by linarith
  then have "\<lfloor>x / 2\<rfloor> < \<lfloor>x\<rfloor>" by simp
  moreover from x have "0 < \<lfloor>x\<rfloor>" by (simp add: less_floor_iff)
  ultimately show "(x / 2, x) \<in> measure (\<lambda>x. nat \<lfloor>x\<rfloor>)" by simp
qed

function binade_down :: "real \<Rightarrow> int" where
  "binade_down x = (if x \<le> 0 \<or> 1 \<le> x then 0 else binade_down (x * 2) - 1)"
  by pat_completeness auto
termination
proof (relation "measure (\<lambda>x. nat \<lceil>1 / x\<rceil>)")
  show "wf (measure (\<lambda>x::real. nat \<lceil>1 / x\<rceil>))" by simp
next
  fix x :: real
  assume "\<not> (x \<le> 0 \<or> 1 \<le> x)"
  then have x: "0 < x" "x < 1" by simp_all
  define y where "y = 1 / x"
  from x have y: "1 < y" by (simp add: y_def)
  have "\<lceil>y / 2\<rceil> < \<lceil>y\<rceil>"
  proof (cases "2 \<le> y")
    case True
    have "of_int \<lceil>y / 2\<rceil> < y / 2 + 1" by linarith
    moreover have "y \<le> of_int \<lceil>y\<rceil>" by simp
    ultimately have "(of_int \<lceil>y / 2\<rceil> :: real) < of_int \<lceil>y\<rceil>" using True by linarith
    then show ?thesis by simp
  next
    case False
    then have "\<lceil>y / 2\<rceil> \<le> 1" by (simp add: ceiling_le_iff)
    moreover from y have "2 \<le> \<lceil>y\<rceil>" by (simp add: le_ceiling_iff)
    ultimately show ?thesis by linarith
  qed
  then have "\<lceil>1 / (x * 2)\<rceil> < \<lceil>1 / x\<rceil>" by (simp add: y_def)
  moreover from x have "0 < \<lceil>1 / x\<rceil>" by simp
  ultimately show "(x * 2, x) \<in> measure (\<lambda>x. nat \<lceil>1 / x\<rceil>)" by simp
qed

declare binade_up.simps [simp del] binade_down.simps [simp del]

definition binade :: "real \<Rightarrow> int" where
  "binade x = (if 1 \<le> x then binade_up x else binade_down x)"

definition pow2 :: "int \<Rightarrow> real" where
  "pow2 k = (if 0 \<le> k then 2 ^ nat k else 1 / 2 ^ nat (- k))"

definition round_double :: "real \<Rightarrow> real" where
  "round_double x =
     (if x = 0 then 0
      else let u = pow2 (binade \<bar>x\<bar> - 52) in of_int (rne (x / u)) * u)"

definition js_mul :: "real \<Rightarrow> real \<Rightarrow> real" where
  "js_mul a b = round_double (a * b)"

definition js_add :: "real \<Rightarrow> real \<Rightarrow> real" where
  "js_add a b = round_double (a + b)"

section \<open>State updaters of the two update callbacks (useTranscription, startTranscription)\<close>

text \<open>
  Each \<open>setTranscriptionState(prev => ({...prev, ...}))\<close> of the source is one pure
  updater on \<open>TranscriptionState\<close>.  The polling callback draws \<open>Math.random()\<close>; the
  draw is the parameter \<open>rnd\<close> (a number with \<open>0 \<le> rnd < 1\<close>), read only when the
  update's status is \<open>processing\<close>, where \<open>Math.random() * 50 + 25\<close> is computed in
  double precision.
\<close>

definition poll_progress :: "TaskStatus \<Rightarrow> real \<Rightarrow> real \<Rightarrow> real" where
  "poll_progress st rnd prev_progress =
     (if st = processing then js_add (js_mul rnd 50) 25
      else if st = completed then 100
      else if st = failed then 0
      else prev_progress)"

definition poll_update_state ::
  "TranscriptionResponse \<Rightarrow> real \<Rightarrow> TranscriptionState \<Rightarrow> TranscriptionState" where
  "poll_update_state update rnd prev =
     prev\<lparr>status := r_status update,
          result := Some update,
          progress := poll_progress (r_status update) rnd (progress prev)\<rparr>"

text \<open>
  A frame of the push channel, \<open>{type, data}\<close>, with the fields the handler reads
  (\<open>progress\<close>, \<open>stage\<close>, \<open>message\<close>; \<open>status\<close>, \<open>progress\<close>; the result; \<open>error\<close>),
  each of the type the job state declares for it.  Every field but the status may be
  absent (\<open>undefined\<close> or \<open>null\<close>): the handler stores the result and the error as
  it finds them.  \<open>UnknownFrame\<close> is any frame whose \<open>type\<close> is none of the four the
  handler tests for: no branch runs.
\<close>

datatype Frame =
    ProgressFrame "real option" "string option" "string option"
  | StatusFrame TaskStatus "real option"
  | ResultFrame "TranscriptionResponse option"
  | ErrorFrame "string option"
  | UnknownFrame

fun ws_update_state :: "Frame \<Rightarrow> TranscriptionState \<Rightarrow> TranscriptionState" where
  "ws_update_state (ProgressFrame p sg msg) prev =
     prev\<lparr>progress := or_number p 0,
          stage := or_string_opt sg (stage prev),
          message := Some (or_string msg [])\<rparr>"
| "ws_update_state (StatusFrame st p) prev =
     prev\<lparr>status := st, progress := or_number p (progress prev)\<rparr>"
| "ws_update_state (ResultFrame r) prev =
     prev\<lparr>status := completed, progress := 100, result := r\<rparr>"
| "ws_update_state (ErrorFrame e) prev =
     prev\<lparr>status := failed, error := e\<rparr>"
| "ws_update_state UnknownFrame prev = prev"

section \<open>The controller and its environment\<close>

text \<open>
  Notifications (\<open>sonner\<close>): every call of \<open>toast.loading/success/error/dismiss\<close>
  is logged with the identifier it acts on.  A call without identifier allocates the
  next one; identifiers start at 1.  The one message built from a number is kept
  structured (\<open>ProgressText stage progress\<close>).
\<close>

datatype ToastText = Lit string | ProgressText string real

datatype ToastKind = Loading | Success | ErrorKind

datatype Toast = Toast ToastKind ToastText nat "string option" | Dismiss nat

datatype DownloadFormat = dl_txt | dl_srt | dl_json

datatype Request =
    UploadReq File
  | FileInfoReq string
  | TranscribeReq string TranscriptionRequest
  | StatusReq string
  | DownloadReq string DownloadFormat

datatype Callback = OnSuccess TranscriptionResponse | OnError Error

text \<open>
  One polling loop is the closure of one call of \<open>pollTaskStatus\<close>: its \<open>stopped\<close>
  flag, and where its \<open>poll\<close> function stands: awaiting \<open>getTaskStatus\<close>
  (\<open>InFlight\<close>), waiting for \<open>setTimeout(poll, d)\<close> to fire (\<open>Scheduled d\<close>), or
  returned without rescheduling (\<open>Finished\<close>).
\<close>

datatype LoopPhase = InFlight | Scheduled nat | Finished

record PollLoop =
  lp_taskId :: string
  lp_interval :: nat
  stopped :: bool
  phase :: LoopPhase

record Socket =
  ws_taskId :: string
  closed :: bool

text \<open>
  The state of one \<open>useTranscription\<close> instance (its four \<open>useState\<close> cells, its
  three refs and its options), the \<open>api\<close> singleton's map of abort handles, and the
  environment the controller acts on: the polling loops and sockets it has created,
  the requests it has issued, the \<open>xhr.abort()\<close> calls, the notifications, the
  clipboard writes, the files saved and the calls of the \<open>onSuccess\<close>/\<open>onError\<close>
  options.  Console output is not modelled.
\<close>

record Controller =
  uploadState :: UploadState
  transcriptionState :: TranscriptionState
  fileInfo :: "FileInfo option"
  uploadedFile :: "FileUploadResponse option"
  stopPollingRef :: "nat option"
  wsRef :: "nat option"
  toastIdRef :: "nat option"
  pollingInterval :: nat
  abortControllers :: "string set"
  loops :: "PollLoop list"
  sockets :: "Socket list"
  requests :: "Request list"
  aborts :: "string list"
  toasts :: "Toast list"
  nextToastId :: nat
  clipboard :: "string list"
  downloads :: "(string \<times> string) list"
  callbacks :: "Callback list"

definition initialUploadState :: UploadState where
  "initialUploadState = \<lparr>u_file = None, uploading = False, u_progress = 0, u_error = None\<rparr>"

definition initialTranscriptionState :: TranscriptionState where
  "initialTranscriptionState =
     \<lparr>taskId = None, status = pending, progress = 0, stage = None, message = None,
      result = None, error = None\<rparr>"

definition initialController :: Controller where
  "initialController =
     \<lparr>uploadState = initialUploadState,
      transcriptionState = initialTranscriptionState,
      fileInfo = None, uploadedFile = None,
      stopPollingRef = None, wsRef = None, toastIdRef = None,
      pollingInterval = 2000,
      abortControllers = {},
      loops = [], sockets = [], requests = [], aborts = [], toasts = [],
      nextToastId = 1, clipboard = [], downloads = [], callbacks = []\<rparr>"

subsection \<open>Notifications\<close>

definition toast_id :: "nat option \<Rightarrow> Controller \<Rightarrow> nat" where
  "toast_id idopt c = (case idopt of Some i \<Rightarrow> i | None \<Rightarrow> nextToastId c)"

definition toast :: "ToastKind \<Rightarrow> ToastText \<Rightarrow> nat option \<Rightarrow> string option \<Rightarrow> Controller \<Rightarrow> Controller" where
  "toast k t idopt descr c =
     (case idopt of
        Some i \<Rightarrow> c\<lparr>toasts := toasts c @ [Toast k t i descr]\<rparr>
      | None \<Rightarrow> c\<lparr>toasts := toasts c @ [Toast k t (nextToastId c) descr],
                  nextToastId := nextToastId c + 1\<rparr>)"

text \<open>\<open>if (toastIdRef.current)\<close>: the ref holds an identifier that is not \<open>0\<close>.\<close>

definition truthy_id :: "nat option \<Rightarrow> bool" where
  "truthy_id r = (case r of None \<Rightarrow> False | Some i \<Rightarrow> i \<noteq> 0)"

definition error_message :: "Error \<Rightarrow> string \<Rightarrow> string" where
  "error_message e fallback = (case e of APIError m _ \<Rightarrow> m | OtherError _ \<Rightarrow> fallback)"

text \<open>The user-facing messages of the hook (Turkish, as UTF-8 bytes).\<close>

definition msg_uploading :: string where
  "msg_uploading = ''Dosya y'' @ [CHR 0xC3, CHR 0xBC] @ ''kleniyor...''"

definition msg_uploaded :: string where
  "msg_uploaded = ''Dosya y'' @ [CHR 0xC3, CHR 0xBC] @ ''klendi''"

definition msg_upload_failed :: string where
  "msg_upload_failed = ''Y'' @ [CHR 0xC3, CHR 0xBC] @ ''kleme ba'' @ [CHR 0xC5, CHR 0x9F] @ ''ar''
     @ [CHR 0xC4, CHR 0xB1] @ ''s'' @ [CHR 0xC4, CHR 0xB1] @ ''z''"

definition msg_starting :: string where
  "msg_starting = ''Transcription ba'' @ [CHR 0xC5, CHR 0x9F] @ ''lat'' @ [CHR 0xC4, CHR 0xB1]
     @ ''l'' @ [CHR 0xC4, CHR 0xB1] @ ''yor...''"

definition msg_in_progress :: string where
  "msg_in_progress = [CHR 0xC4, CHR 0xB0, CHR 0xC5, CHR 0x9F] @ ''lem devam ediyor...''"

definition msg_completed :: string where
  "msg_completed = ''Transcription tamamland'' @ [CHR 0xC4, CHR 0xB1] @ ''!''"

definition msg_failed_prefix :: string where
  "msg_failed_prefix = ''Transcription ba'' @ [CHR 0xC5, CHR 0x9F] @ ''ar'' @ [CHR 0xC4, CHR 0xB1]
     @ ''s'' @ [CHR 0xC4, CHR 0xB1] @ ''z: ''"

definition msg_unknown_error :: string where
  "msg_unknown_error = ''Bilinmeyen hata''"

definition msg_start_failed :: string where
  "msg_start_failed = ''Transcription ba'' @ [CHR 0xC5, CHR 0x9F] @ ''lat'' @ [CHR 0xC4, CHR 0xB1]
     @ ''lamad'' @ [CHR 0xC4, CHR 0xB1]"

definition msg_no_result :: string where
  "msg_no_result = [CHR 0xC4, CHR 0xB0] @ ''ndirilebilecek transcription sonucu yok''"

definition msg_downloading_suffix :: string where
  "msg_downloading_suffix = '' indiriliyor...''"

definition msg_download_done :: string where
  "msg_download_done = [CHR 0xC4, CHR 0xB0] @ ''ndirme tamamland'' @ [CHR 0xC4, CHR 0xB1]"

definition msg_download_failed :: string where
  "msg_download_failed = [CHR 0xC4, CHR 0xB0] @ ''ndirme ba'' @ [CHR 0xC5, CHR 0x9F] @ ''ar''
     @ [CHR 0xC4, CHR 0xB1] @ ''s'' @ [CHR 0xC4, CHR 0xB1] @ ''z''"

definition msg_no_text :: string where
  "msg_no_text = ''Kopyalanacak metin yok''"

definition msg_copied :: string where
  "msg_copied = ''Metin kopyaland'' @ [CHR 0xC4, CHR 0xB1]"

definition msg_copy_failed :: string where
  "msg_copy_failed = ''Kopyalama ba'' @ [CHR 0xC5, CHR 0x9F] @ ''ar'' @ [CHR 0xC4, CHR 0xB1]
     @ ''s'' @ [CHR 0xC4, CHR 0xB1] @ ''z''"

definition msg_upload_cancelled :: string where
  "msg_upload_cancelled = [CHR 0xC4, CHR 0xB0] @ ''ptal edildi''"

definition msg_cancelled_by_user :: string where
  "msg_cancelled_by_user = [CHR 0xC4, CHR 0xB0, CHR 0xC5, CHR 0x9F] @ ''lem kullan''
     @ [CHR 0xC4, CHR 0xB1] @ ''c'' @ [CHR 0xC4, CHR 0xB1] @ '' taraf'' @ [CHR 0xC4, CHR 0xB1]
     @ ''ndan iptal edildi''"

section \<open>The polling loop (TranscriptionAPI.pollTaskStatus)\<close>

text \<open>
  \<open>poll\<close> is an async function: \<open>poll_begin\<close> is its synchronous part, from the
  test of \<open>stopped\<close> to the \<open>await\<close> of \<open>getTaskStatus\<close>; \<open>poll_resume\<close> is
  what runs when the awaited request settles, with the outcome of the request as its
  argument.  \<open>poll_resume\<close> returns the update it hands to \<open>onUpdate\<close>, if any.  The
  call \<open>onUpdate(response)\<close> sits inside the \<open>try\<close>: \<open>callback_throws\<close> tells whether
  it throws, and then the \<open>catch\<close> branch runs as it does for a failed request.
\<close>

definition is_terminal :: "TaskStatus \<Rightarrow> bool" where
  "is_terminal st = (st = completed \<or> st = failed)"

definition poll_begin :: "PollLoop \<Rightarrow> PollLoop" where
  "poll_begin l = (if stopped l then l\<lparr>phase := Finished\<rparr> else l\<lparr>phase := InFlight\<rparr>)"

definition poll_resume ::
  "Error + TranscriptionResponse \<Rightarrow> bool \<Rightarrow> PollLoop
     \<Rightarrow> PollLoop \<times> TranscriptionResponse option" where
  "poll_resume outcome callback_throws l =
     (case outcome of
        Inr response \<Rightarrow>
          if callback_throws
          then (l\<lparr>phase := Scheduled (lp_interval l * 2)\<rparr>, Some response)
          else if is_terminal (r_status response)
          then (l\<lparr>stopped := True, phase := Finished\<rparr>, Some response)
          else (l\<lparr>phase := Scheduled (lp_interval l)\<rparr>, Some response)
      | Inl e \<Rightarrow> (l\<lparr>phase := Scheduled (lp_interval l * 2)\<rparr>, None))"

text \<open>The stop handle returned by \<open>pollTaskStatus\<close>: \<open>() => { stopped = true; }\<close>.\<close>

definition stop :: "PollLoop \<Rightarrow> PollLoop" where
  "stop l = l\<lparr>stopped := True\<rparr>"

definition new_loop :: "string \<Rightarrow> nat \<Rightarrow> PollLoop" where
  "new_loop tid interval =
     poll_begin \<lparr>lp_taskId = tid, lp_interval = interval, stopped = False, phase = Scheduled 0\<rparr>"

text \<open>
  One round of a loop that is never stopped from outside: the pending request settles
  with the given outcome (and the callback throws or not) and, if a timer was set, the
  timer fires.  \<open>poll_rounds\<close> runs a list of rounds and collects the delay of every
  timer set.
\<close>

fun poll_rounds ::
  "((Error + TranscriptionResponse) \<times> bool) list \<Rightarrow> PollLoop \<Rightarrow> nat list \<times> PollLoop" where
  "poll_rounds [] l = ([], l)"
| "poll_rounds ((outcome, callback_throws) # rest) l =
     (if phase l \<noteq> InFlight then ([], l)
      else let l1 = fst (poll_resume outcome callback_throws l) in
        (case phase l1 of
           Scheduled d \<Rightarrow> (let (ds, l2) = poll_rounds rest (poll_begin l1) in (d # ds, l2))
         | _ \<Rightarrow> ([], l1)))"

section \<open>The hook's callbacks (useTranscription, startTranscription)\<close>

text \<open>The \<open>onUpdate\<close> callback handed to \<open>pollTaskStatus\<close>.\<close>

definition onUpdate :: "TranscriptionResponse \<Rightarrow> real \<Rightarrow> Controller \<Rightarrow> Controller" where
  "onUpdate update rnd c =
     (let c1 = c\<lparr>transcriptionState := poll_update_state update rnd (transcriptionState c)\<rparr> in
      if r_status update = completed then
        (let c2 = (if truthy_id (toastIdRef c1)
                   then toast Success (Lit msg_completed) (toastIdRef c1) None c1
                   else toast Success (Lit msg_completed) None None c1)
         in c2\<lparr>toastIdRef := None, callbacks := callbacks c2 @ [OnSuccess update]\<rparr>)
      else if r_status update = failed then
        (let t = Lit (msg_failed_prefix @ or_string (r_error update) msg_unknown_error);
             c2 = (if truthy_id (toastIdRef c1)
                   then toast ErrorKind t (toastIdRef c1) None c1
                   else toast ErrorKind t None None c1)
         in c2\<lparr>toastIdRef := None,
               callbacks := callbacks c2 @
                 [OnError (OtherError (or_string (r_error update) ''Transcription failed''))]\<rparr>)
      else c1)"

text \<open>The \<open>onMessage\<close> handler handed to \<open>connectWebSocket\<close>.\<close>

definition onMessage :: "Frame \<Rightarrow> Controller \<Rightarrow> Controller" where
  "onMessage fr c =
     (let c1 = c\<lparr>transcriptionState := ws_update_state fr (transcriptionState c)\<rparr> in
      case fr of
        ProgressFrame p sg msg \<Rightarrow>
          if truthy_id (toastIdRef c1)
          then toast Loading (ProgressText (or_string sg ''Processing'') (or_number p 0))
                 (toastIdRef c1) (Some (or_string msg ''Transcription in progress...'')) c1
          else c1
      | _ \<Rightarrow> c1)"

text \<open>
  An update reaching the controller: from a polling loop (with the random draw of the
  callback) or from the push channel.
\<close>

datatype Update = PollUpdate TranscriptionResponse real | PushFrame Frame

fun deliver :: "Update \<Rightarrow> Controller \<Rightarrow> Controller" where
  "deliver (PollUpdate u rnd) c = onUpdate u rnd c"
| "deliver (PushFrame fr) c = onMessage fr c"

definition deliver_all :: "Update list \<Rightarrow> Controller \<Rightarrow> Controller" where
  "deliver_all us c = foldl (\<lambda>c u. deliver u c) c us"

text \<open>The status an update writes into the job state, if it writes one.\<close>

fun carried_status :: "Update \<Rightarrow> TaskStatus option" where
  "carried_status (PollUpdate u rnd) = Some (r_status u)"
| "carried_status (PushFrame (StatusFrame st p)) = Some st"
| "carried_status (PushFrame (ResultFrame r)) = Some completed"
| "carried_status (PushFrame (ErrorFrame e)) = Some failed"
| "carried_status (PushFrame (ProgressFrame p sg msg)) = None"
| "carried_status (PushFrame UnknownFrame) = None"

section \<open>Events of the environment\<close>

text \<open>
  The timer of loop \<open>i\<close> fires (\<open>poll_tick\<close>), the request of loop \<open>i\<close> settles
  (\<open>poll_settle\<close>; the hook's callback ends with the call of the \<open>onSuccess\<close> or
  \<open>onError\<close> option when the status is completed or failed, and \<open>option_throws\<close>
  tells whether that option throws), socket \<open>j\<close> receives a frame (\<open>ws_message\<close>; a socket on which
  \<open>close()\<close> was called dispatches no further message), socket \<open>j\<close> reports its
  closing (\<open>ws_close_event\<close>, the \<open>onClose\<close> handler).
\<close>

definition poll_tick :: "nat \<Rightarrow> Controller \<Rightarrow> Controller" where
  "poll_tick i c =
     (if i < length (loops c) then
        (case phase (loops c ! i) of
           Scheduled d \<Rightarrow>
             (let l = poll_begin (loops c ! i) in
              c\<lparr>loops := (loops c)[i := l],
                requests := (if phase l = InFlight
                             then requests c @ [StatusReq (lp_taskId l)] else requests c)\<rparr>)
         | _ \<Rightarrow> c)
      else c)"

definition poll_settle ::
  "nat \<Rightarrow> Error + TranscriptionResponse \<Rightarrow> real \<Rightarrow> bool \<Rightarrow> Controller \<Rightarrow> Controller" where
  "poll_settle i outcome rnd option_throws c =
     (if i < length (loops c) \<and> phase (loops c ! i) = InFlight then
        (let callback_throws =
               (case outcome of
                  Inr u \<Rightarrow> option_throws \<and> is_terminal (r_status u)
                | Inl e \<Rightarrow> False);
             (l, delivered) = poll_resume outcome callback_throws (loops c ! i);
             c1 = (case delivered of Some u \<Rightarrow> onUpdate u rnd c | None \<Rightarrow> c)
         in c1\<lparr>loops := (loops c1)[i := l]\<rparr>)
      else c)"

definition ws_message :: "nat \<Rightarrow> Frame \<Rightarrow> Controller \<Rightarrow> Controller" where
  "ws_message j fr c =
     (if j < length (sockets c) \<and> \<not> closed (sockets c ! j) then onMessage fr c else c)"

definition ws_close_event :: "nat \<Rightarrow> Controller \<Rightarrow> Controller" where
  "ws_close_event j c = (if j < length (sockets c) then c\<lparr>wsRef := None\<rparr> else c)"

section \<open>Operations of the hook\<close>

text \<open>
  An async operation takes the outcome of each request it awaits as an argument
  (\<open>Inl\<close> the error the promise rejects with, \<open>Inr\<close> the value it resolves to) and
  returns the controller after its last step.
\<close>

subsection \<open>uploadFile\<close>

text \<open>
  \<open>api.uploadFile\<close> sends the file and stores an abort handle under the file's
  name; \<open>progs\<close> are the percentages its progress events report.
\<close>

definition uploadFile_catch :: "Error \<Rightarrow> Controller \<Rightarrow> FileUploadResponse option \<times> Controller" where
  "uploadFile_catch e c =
     (let m = error_message e msg_upload_failed;
          c1 = c\<lparr>uploadState := (uploadState c)\<lparr>uploading := False, u_error := Some m\<rparr>\<rparr>;
          c2 = toast ErrorKind (Lit m) (toastIdRef c1) None c1
      in (None, c2\<lparr>toastIdRef := None, callbacks := callbacks c2 @ [OnError e]\<rparr>))"

text \<open>
  \<open>uploadFile_begin\<close> is the part of \<open>uploadFile\<close> that runs before the upload is
  awaited: it leaves the controller with the upload in progress.
\<close>

definition uploadFile_begin :: "File \<Rightarrow> Controller \<Rightarrow> Controller" where
  "uploadFile_begin f c =
     (let c1 = c\<lparr>uploadState :=
                  \<lparr>u_file = Some f, uploading = True, u_progress = 0, u_error = None\<rparr>\<rparr>;
          c2 = (toast Loading (Lit msg_uploading) None None c1)\<lparr>toastIdRef := Some (toast_id None c1)\<rparr>
      in c2\<lparr>requests := requests c2 @ [UploadReq f],
            abortControllers := insert (name f) (abortControllers c2)\<rparr>)"

definition uploadFile ::
  "File \<Rightarrow> real list \<Rightarrow> Error + FileUploadResponse \<Rightarrow> Error + FileInfo \<Rightarrow> Controller
     \<Rightarrow> FileUploadResponse option \<times> Controller" where
  "uploadFile f progs upload_outcome info_outcome c =
     (let c3 = uploadFile_begin f c;
          c4 = foldl (\<lambda>c p. c\<lparr>uploadState := (uploadState c)\<lparr>u_progress := p\<rparr>\<rparr>) c3 progs
      in case upload_outcome of
           Inl e \<Rightarrow> uploadFile_catch e c4
         | Inr response \<Rightarrow>
             (let c5 = c4\<lparr>uploadedFile := Some response,
                          uploadState := (uploadState c4)\<lparr>uploading := False, u_progress := 100\<rparr>\<rparr>;
                  c6 = (toast Success (Lit msg_uploaded) (toastIdRef c5) None c5)\<lparr>toastIdRef := None\<rparr>;
                  c7 = c6\<lparr>requests := requests c6 @ [FileInfoReq (file_id response)]\<rparr>
              in case info_outcome of
                   Inl e \<Rightarrow> uploadFile_catch e c7
                 | Inr info \<Rightarrow> (Some response, c7\<lparr>fileInfo := Some info\<rparr>)))"

subsection \<open>startTranscription\<close>

text \<open>
  \<open>ws_ok\<close> tells whether \<open>api.connectWebSocket\<close> returns a socket; when it throws,
  the inner \<open>catch\<close> only logs.
\<close>

definition pollTaskStatus :: "string \<Rightarrow> nat \<Rightarrow> Controller \<Rightarrow> Controller" where
  "pollTaskStatus tid interval c =
     c\<lparr>loops := loops c @ [new_loop tid interval],
       requests := requests c @ [StatusReq tid],
       stopPollingRef := Some (length (loops c))\<rparr>"

definition connectWebSocket :: "string \<Rightarrow> Controller \<Rightarrow> Controller" where
  "connectWebSocket tid c =
     c\<lparr>sockets := sockets c @ [\<lparr>ws_taskId = tid, closed = False\<rparr>],
       wsRef := Some (length (sockets c))\<rparr>"

definition startTranscription ::
  "string \<Rightarrow> TranscriptionRequest \<Rightarrow> Error + TranscriptionResponse \<Rightarrow> bool \<Rightarrow> Controller
     \<Rightarrow> Controller" where
  "startTranscription fileId options outcome ws_ok c =
     (let c1 = c\<lparr>transcriptionState :=
                  \<lparr>taskId = None, status = processing, progress = 0, stage = None,
                   message = None, result = None, error = None\<rparr>\<rparr>;
          c2 = (toast Loading (Lit msg_starting) None None c1)\<lparr>toastIdRef := Some (toast_id None c1)\<rparr>;
          c3 = c2\<lparr>requests := requests c2 @ [TranscribeReq fileId options]\<rparr>
      in case outcome of
           Inr response \<Rightarrow>
             (let c4 = c3\<lparr>transcriptionState := (transcriptionState c3)
                          \<lparr>taskId := Some (task_id response), status := r_status response\<rparr>\<rparr>;
                  c5 = toast Loading (Lit msg_in_progress) (toastIdRef c4) None c4;
                  c6 = pollTaskStatus (task_id response) (pollingInterval c5) c5
              in if ws_ok then connectWebSocket (task_id response) c6 else c6)
         | Inl e \<Rightarrow>
             (let m = error_message e msg_start_failed;
                  c4 = c3\<lparr>transcriptionState := (transcriptionState c3)
                          \<lparr>status := failed, error := Some m\<rparr>\<rparr>;
                  c5 = toast ErrorKind (Lit m) (toastIdRef c4) None c4
              in c5\<lparr>toastIdRef := None, callbacks := callbacks c5 @ [OnError e]\<rparr>))"

subsection \<open>processFile\<close>

definition processFile ::
  "File \<Rightarrow> TranscriptionRequest \<Rightarrow> real list \<Rightarrow> Error + FileUploadResponse \<Rightarrow> Error + FileInfo
     \<Rightarrow> Error + TranscriptionResponse \<Rightarrow> bool \<Rightarrow> Controller \<Rightarrow> Controller" where
  "processFile f transcriptionOptions progs upload_outcome info_outcome outcome ws_ok c =
     (case uploadFile f progs upload_outcome info_outcome c of
        (Some uploadResult, c1) \<Rightarrow>
          startTranscription (file_id uploadResult) transcriptionOptions outcome ws_ok c1
      | (None, c1) \<Rightarrow> c1)"

subsection \<open>downloadResult and copyToClipboard\<close>

definition format_name :: "DownloadFormat \<Rightarrow> string" where
  "format_name f = (case f of dl_txt \<Rightarrow> ''txt'' | dl_srt \<Rightarrow> ''srt'' | dl_json \<Rightarrow> ''json'')"

definition format_upper :: "DownloadFormat \<Rightarrow> string" where
  "format_upper f = (case f of dl_txt \<Rightarrow> ''TXT'' | dl_srt \<Rightarrow> ''SRT'' | dl_json \<Rightarrow> ''JSON'')"

text \<open>The blob of a download is its content as a string.\<close>

definition downloadResult :: "DownloadFormat \<Rightarrow> Error + string \<Rightarrow> Controller \<Rightarrow> Controller" where
  "downloadResult fmt outcome c =
     (case taskId (transcriptionState c) of
        None \<Rightarrow> toast ErrorKind (Lit msg_no_result) None None c
      | Some tid \<Rightarrow>
          if tid = [] then toast ErrorKind (Lit msg_no_result) None None c
          else
            (let downloadToast = toast_id None c;
                 c1 = toast Loading (Lit (format_upper fmt @ msg_downloading_suffix)) None None c;
                 c2 = c1\<lparr>requests := requests c1 @ [DownloadReq tid fmt]\<rparr>
             in case outcome of
                  Inr blob \<Rightarrow>
                    toast Success (Lit msg_download_done) (Some downloadToast) None
                      (c2\<lparr>downloads := downloads c2 @ [(''transcript.'' @ format_name fmt, blob)]\<rparr>)
                | Inl e \<Rightarrow>
                    toast ErrorKind (Lit (error_message e msg_download_failed))
                      (Some downloadToast) None c2))"

text \<open>\<open>transcriptionState.result?.text\<close>.\<close>

definition result_text :: "TranscriptionState \<Rightarrow> string option" where
  "result_text s = (case result s of None \<Rightarrow> None | Some r \<Rightarrow> r_text r)"

text \<open>\<open>clip_ok\<close> tells whether \<open>navigator.clipboard.writeText\<close> resolves.\<close>

definition copyToClipboard :: "bool \<Rightarrow> Controller \<Rightarrow> Controller" where
  "copyToClipboard clip_ok c =
     (case result_text (transcriptionState c) of
        None \<Rightarrow> toast ErrorKind (Lit msg_no_text) None None c
      | Some t \<Rightarrow>
          if t = [] then toast ErrorKind (Lit msg_no_text) None None c
          else if clip_ok
          then toast Success (Lit msg_copied) None None (c\<lparr>clipboard := clipboard c @ [t]\<rparr>)
          else toast ErrorKind (Lit msg_copy_failed) None None c)"

subsection \<open>cancel and reset\<close>

definition cancelUpload :: "string \<Rightarrow> Controller \<Rightarrow> Controller" where
  "cancelUpload fname c =
     (if fname \<in> abortControllers c
      then c\<lparr>aborts := aborts c @ [fname], abortControllers := abortControllers c - {fname}\<rparr>
      else c)"

definition stop_polling :: "Controller \<Rightarrow> Controller" where
  "stop_polling c =
     (case stopPollingRef c of
        Some i \<Rightarrow> c\<lparr>loops := (if i < length (loops c) then (loops c)[i := stop (loops c ! i)]
                               else loops c),
                    stopPollingRef := None\<rparr>
      | None \<Rightarrow> c)"

definition close_socket :: "Controller \<Rightarrow> Controller" where
  "close_socket c =
     (case wsRef c of
        Some j \<Rightarrow> c\<lparr>sockets := (if j < length (sockets c)
                                 then (sockets c)[j := (sockets c ! j)\<lparr>closed := True\<rparr>]
                                 else sockets c),
                    wsRef := None\<rparr>
      | None \<Rightarrow> c)"

definition dismiss_toast :: "Controller \<Rightarrow> Controller" where
  "dismiss_toast c =
     (case toastIdRef c of
        Some i \<Rightarrow> if i \<noteq> 0 then c\<lparr>toasts := toasts c @ [Dismiss i], toastIdRef := None\<rparr> else c
      | None \<Rightarrow> c)"

text \<open>
  \<open>cancel\<close> is a \<open>useCallback\<close> closure over \<open>uploadState.file\<close>,
  \<open>uploadState.uploading\<close> and \<open>transcriptionState.status\<close>: \<open>cancel_closure\<close>
  takes the captured values, \<open>cancel\<close> is the closure of the current render (all three
  are in the dependency list), which captures the current state.  Its five blocks run
  in the order of the source: cancel the upload if one is in progress, stop polling,
  close the socket, dismiss the active notification, update the job state.
\<close>

definition cancel_upload_in_progress :: "File option \<Rightarrow> bool \<Rightarrow> Controller \<Rightarrow> Controller" where
  "cancel_upload_in_progress cap_file cap_uploading c =
     (case cap_file of
        Some f \<Rightarrow>
          if cap_uploading
          then (let c0 = cancelUpload (name f) c in
                c0\<lparr>uploadState := (uploadState c0)
                     \<lparr>uploading := False, u_error := Some msg_upload_cancelled\<rparr>\<rparr>)
          else c
      | None \<Rightarrow> c)"

definition mark_cancelled :: "TaskStatus \<Rightarrow> Controller \<Rightarrow> Controller" where
  "mark_cancelled cap_status c =
     (if cap_status = processing
      then c\<lparr>transcriptionState := (transcriptionState c)
               \<lparr>status := failed, error := Some msg_cancelled_by_user\<rparr>\<rparr>
      else c)"

definition cancel_closure :: "File option \<Rightarrow> bool \<Rightarrow> TaskStatus \<Rightarrow> Controller \<Rightarrow> Controller" where
  "cancel_closure cap_file cap_uploading cap_status c =
     mark_cancelled cap_status
       (dismiss_toast (close_socket (stop_polling
          (cancel_upload_in_progress cap_file cap_uploading c))))"

definition cancel :: "Controller \<Rightarrow> Controller" where
  "cancel c =
     cancel_closure (u_file (uploadState c)) (uploading (uploadState c))
       (status (transcriptionState c)) c"

definition reset :: "Controller \<Rightarrow> Controller" where
  "reset c =
     (let c1 = (if uploading (uploadState c) \<or> status (transcriptionState c) = processing
                then cancel c else c);
          c2 = c1\<lparr>uploadState := initialUploadState,
                  transcriptionState := initialTranscriptionState,
                  fileInfo := None, uploadedFile := None\<rparr>
      in dismiss_toast (close_socket (stop_polling c2)))"

section \<open>Notions of the specification\<close>

text \<open>
  The ordering of phases the specification names,
  \<open>Pending < Uploading < Processing < {Completed, Failed}\<close>, as a rank (\<open>TaskStatus\<close>
  has no \<open>Uploading\<close>; its rank 1 stays free), and the invariant of the job state it
  states: \<open>Completed\<close> comes with a result, \<open>Failed\<close> with an error.
\<close>

definition phase_rank :: "TaskStatus \<Rightarrow> nat" where
  "phase_rank st = (case st of pending \<Rightarrow> 0 | processing \<Rightarrow> 2 | completed \<Rightarrow> 3 | failed \<Rightarrow> 3)"

definition state_invariant :: "TranscriptionState \<Rightarrow> bool" where
  "state_invariant s =
     ((status s = completed \<longrightarrow> result s \<noteq> None) \<and> (status s = failed \<longrightarrow> error s \<noteq> None))"

section \<open>Sample inputs\<close>

definition sample_response :: "string \<Rightarrow> TaskStatus \<Rightarrow> TranscriptionResponse" where
  "sample_response tid st =
     \<lparr>task_id = tid, r_status = st, r_text = None, segments = None, language = None,
      duration = None, processing_time = None, model_size = None, device = None,
      word_count = None, character_count = None, output_files = None, r_error = None,
      created_at = ''2024-05-01T10:00:00Z'', completed_at = None\<rparr>"

definition sample_options :: TranscriptionRequest where
  "sample_options =
     \<lparr>req_model_size = Some base, req_language = Some ''tr'', req_device = None,
      apply_vad = None, normalize_audio = None, output_format = None, initial_prompt = None,
      req_temperature = None\<rparr>"

text \<open>
  The controller right after a successful \<open>startTranscription\<close> on a fresh hook:
  task \<open>t1\<close> is processing, polling loop 0 awaits its first status request, socket 0
  is open.
\<close>

definition started :: Controller where
  "started = startTranscription ''f1'' sample_options (Inr (sample_response ''t1'' processing)) True
               initialController"

text \<open>
  The same session after its polling loop has fetched the completed task: the loop has
  stopped itself, the socket is still open.
\<close>

definition sample_result :: TranscriptionResponse where
  "sample_result = (sample_response ''t1'' completed)\<lparr>r_text := Some ''merhaba''\<rparr>"

definition finished :: Controller where
  "finished = poll_settle 0 (Inr sample_result) 0 False started"

text \<open>The same session after a poll has reported the task as failed.\<close>

definition failed_by_poll :: Controller where
  "failed_by_poll =
     poll_settle 0 (Inr ((sample_response ''t1'' failed)\<lparr>r_error := Some ''decode error''\<rparr>)) 0
       False started"

text \<open>A polling loop as \<open>pollTaskStatus\<close> creates it, and a transport failure.\<close>

definition sample_loop :: PollLoop where
  "sample_loop = new_loop ''t1'' 2000"

definition timeout_error :: Error where
  "timeout_error = APIError ''Request timeout'' (Some 408)"

text \<open>The started session after \<open>startTranscription\<close> was called once more.\<close>

definition restarted :: Controller where
  "restarted = startTranscription ''f2'' sample_options (Inr (sample_response ''t2'' processing)) True started"

text \<open>
  The started session after \<open>cancel\<close>, once the status request that was in flight has
  settled with status \<open>processing\<close>.
\<close>

definition resurrected :: Controller where
  "resurrected =
     poll_settle 0 (Inr (sample_response ''t1'' processing)) (1/2) False (cancel started)"




text \<open>The largest double below 1, a value \<open>Math.random()\<close> may return.\<close>

definition largest_draw :: real where
  "largest_draw = 1 - 1 / 2 ^ 53"

section \<open>Auxiliary facts\<close>

lemma started_value:
  "started =
     \<lparr>uploadState = initialUploadState,
      transcriptionState =
        \<lparr>taskId = Some ''t1'', status = processing, progress = 0, stage = None,
         message = None, result = None, error = None\<rparr>,
      fileInfo = None, uploadedFile = None,
      stopPollingRef = Some 0, wsRef = Some 0, toastIdRef = Some 1,
      pollingInterval = 2000,
      abortControllers = {},
      loops = [\<lparr>lp_taskId = ''t1'', lp_interval = 2000, stopped = False, phase = InFlight\<rparr>],
      sockets = [\<lparr>ws_taskId = ''t1'', closed = False\<rparr>],
      requests = [TranscribeReq ''f1'' sample_options, StatusReq ''t1''],
      aborts = [],
      toasts = [Toast Loading (Lit msg_starting) 1 None, Toast Loading (Lit msg_in_progress) 1 None],
      nextToastId = 2, clipboard = [], downloads = [], callbacks = []\<rparr>"
  by (simp add: started_def startTranscription_def pollTaskStatus_def connectWebSocket_def
      toast_def toast_id_def new_loop_def poll_begin_def initialController_def
      sample_response_def Let_def)

lemma transcriptionState_onUpdate:
  "transcriptionState (onUpdate update rnd c) = poll_update_state update rnd (transcriptionState c)"
  by (simp add: onUpdate_def Let_def toast_def split: option.splits)

lemma transcriptionState_onMessage:
  "transcriptionState (onMessage fr c) = ws_update_state fr (transcriptionState c)"
  by (cases fr) (simp_all add: onMessage_def Let_def toast_def split: option.splits)

lemma status_deliver:
  "status (transcriptionState (deliver u c)) =
     (case carried_status u of Some st \<Rightarrow> st | None \<Rightarrow> status (transcriptionState c))"
  by (induction u rule: carried_status.induct)
     (simp_all add: transcriptionState_onUpdate transcriptionState_onMessage poll_update_state_def)

lemma deliver_all_snoc: "deliver_all (us @ [u]) c = deliver u (deliver_all us c)"
  by (simp add: deliver_all_def)

lemma status_deliver_all:
  "status (transcriptionState (deliver_all us c)) =
     last (status (transcriptionState c) # List.map_filter carried_status us)"
proof (induction us rule: rev_induct)
  case Nil
  show ?case by (simp add: deliver_all_def List.map_filter_simps)
next
  case (snoc u us)
  show ?case
    by (cases "carried_status u")
       (simp_all add: deliver_all_snoc status_deliver snoc map_filter_def)
qed

lemma finished_state:
  "transcriptionState finished =
     \<lparr>taskId = Some ''t1'', status = completed, progress = 100, stage = None,
      message = None, result = Some sample_result, error = None\<rparr>"
  "sockets finished = [\<lparr>ws_taskId = ''t1'', closed = False\<rparr>]"
  "loops finished = [\<lparr>lp_taskId = ''t1'', lp_interval = 2000, stopped = True, phase = Finished\<rparr>]"
  by (simp_all add: finished_def poll_settle_def poll_resume_def started_value is_terminal_def
      sample_result_def sample_response_def Let_def onUpdate_def poll_update_state_def
      poll_progress_def toast_def truthy_id_def)

lemma transcriptionState_toast [simp]:
  "transcriptionState (toast k t i d c) = transcriptionState c"
  by (simp add: toast_def split: option.splits)

lemma transcriptionState_cancel:
  "transcriptionState (cancel c) =
     (if status (transcriptionState c) = processing
      then (transcriptionState c)\<lparr>status := failed, error := Some msg_cancelled_by_user\<rparr>
      else transcriptionState c)"
  by (simp add: cancel_def cancel_closure_def mark_cancelled_def cancel_upload_in_progress_def
      Let_def stop_polling_def close_socket_def dismiss_toast_def cancelUpload_def
      split: option.splits)

lemma transcriptionState_start_failed:
  "transcriptionState (startTranscription fileId options (Inl e) ws_ok c) =
     \<lparr>taskId = None, status = failed, progress = 0, stage = None, message = None,
      result = None, error = Some (error_message e msg_start_failed)\<rparr>"
  by (simp add: startTranscription_def Let_def)

lemma lp_interval_poll_begin [simp]: "lp_interval (poll_begin l) = lp_interval l"
  by (simp add: poll_begin_def)

lemma lp_interval_poll_resume [simp]:
  "lp_interval (fst (poll_resume outcome t l)) = lp_interval l"
  by (simp add: poll_resume_def split: sum.splits)

lemma phase_poll_resume:
  "phase (fst (poll_resume outcome t l)) =
     (case outcome of
        Inl e \<Rightarrow> Scheduled (lp_interval l * 2)
      | Inr r \<Rightarrow> if t then Scheduled (lp_interval l * 2)
                 else if is_terminal (r_status r) then Finished else Scheduled (lp_interval l))"
  by (simp add: poll_resume_def split: sum.splits)

lemma poll_rounds_delays:
  "d \<in> set (fst (poll_rounds rounds l)) \<Longrightarrow> d = lp_interval l \<or> d = lp_interval l * 2"
proof (induction rounds arbitrary: l)
  case Nil
  then show ?case by simp
next
  case (Cons round rest)
  obtain outcome t where round: "round = (outcome, t)" by (cases round)
  show ?case
  proof (cases "phase l = InFlight")
    case False
    with Cons.prems show ?thesis by (simp add: round)
  next
    case True
    let ?l1 = "fst (poll_resume outcome t l)"
    show ?thesis
    proof (cases "phase ?l1")
      case (Scheduled d0)
      then have d0: "d0 = lp_interval l \<or> d0 = lp_interval l * 2"
        by (auto simp: phase_poll_resume split: sum.splits if_splits)
      from Cons.prems True Scheduled
      have "d = d0 \<or> d \<in> set (fst (poll_rounds rest (poll_begin ?l1)))"
        by (auto simp: round Let_def split: prod.splits)
      then show ?thesis
      proof
        assume "d = d0" with d0 show ?thesis by simp
      next
        assume "d \<in> set (fst (poll_rounds rest (poll_begin ?l1)))"
        from Cons.IH [OF this] show ?thesis by simp
      qed
    next
      case InFlight
      with Cons.prems True show ?thesis by (simp add: round Let_def)
    next
      case Finished
      with Cons.prems True show ?thesis by (simp add: round Let_def)
    qed
  qed
qed

lemma sample_response_sel [simp]:
  "r_status (sample_response tid st) = st"
  "task_id (sample_response tid st) = tid"
  "r_error (sample_response tid st) = None"
  "r_text (sample_response tid st) = None"
  by (simp_all add: sample_response_def)

lemma cancel_started:
  "loops (cancel started) = [\<lparr>lp_taskId = ''t1'', lp_interval = 2000, stopped = True, phase = InFlight\<rparr>]"
  "transcriptionState (cancel started) =
     \<lparr>taskId = Some ''t1'', status = failed, progress = 0, stage = None,
      message = None, result = None, error = Some msg_cancelled_by_user\<rparr>"
  "stopPollingRef (cancel started) = None"
  by (simp_all add: cancel_def cancel_closure_def mark_cancelled_def cancel_upload_in_progress_def
      Let_def stop_polling_def close_socket_def dismiss_toast_def started_value
      initialUploadState_def stop_def)

lemma upload_progress_fold:
  "foldl (\<lambda>c p. c\<lparr>uploadState := (uploadState c)\<lparr>u_progress := p\<rparr>\<rparr>) c progs =
     c\<lparr>uploadState := (uploadState c)\<lparr>u_progress := last (u_progress (uploadState c) # progs)\<rparr>\<rparr>"
  by (induction progs arbitrary: c) simp_all

lemma uploadFile_failed:
  "uploadFile f progs (Inl e) info_outcome c =
     (None,
      c\<lparr>uploadState := \<lparr>u_file = Some f, uploading = False, u_progress = last (0 # progs),
                        u_error = Some (error_message e msg_upload_failed)\<rparr>,
        toastIdRef := None,
        requests := requests c @ [UploadReq f],
        abortControllers := insert (name f) (abortControllers c),
        toasts := toasts c @ [Toast Loading (Lit msg_uploading) (nextToastId c) None,
                              Toast ErrorKind (Lit (error_message e msg_upload_failed)) (nextToastId c) None],
        nextToastId := nextToastId c + 1,
        callbacks := callbacks c @ [OnError e]\<rparr>)"
  by (simp add: uploadFile_def uploadFile_begin_def uploadFile_catch_def Let_def toast_def
      toast_id_def upload_progress_fold)

lemma stop_polling_fields [simp]:
  "uploadState (stop_polling c) = uploadState c"
  "transcriptionState (stop_polling c) = transcriptionState c"
  "fileInfo (stop_polling c) = fileInfo c"
  "uploadedFile (stop_polling c) = uploadedFile c"
  "stopPollingRef (stop_polling c) = None"
  "wsRef (stop_polling c) = wsRef c"
  "toastIdRef (stop_polling c) = toastIdRef c"
  "pollingInterval (stop_polling c) = pollingInterval c"
  "abortControllers (stop_polling c) = abortControllers c"
  "sockets (stop_polling c) = sockets c"
  "requests (stop_polling c) = requests c"
  "aborts (stop_polling c) = aborts c"
  "toasts (stop_polling c) = toasts c"
  "nextToastId (stop_polling c) = nextToastId c"
  "clipboard (stop_polling c) = clipboard c"
  "downloads (stop_polling c) = downloads c"
  "callbacks (stop_polling c) = callbacks c"
  "Controller.more (stop_polling c) = Controller.more c"
  by (simp_all add: stop_polling_def split: option.splits)


lemma close_socket_fields [simp]:
  "uploadState (close_socket c) = uploadState c"
  "transcriptionState (close_socket c) = transcriptionState c"
  "fileInfo (close_socket c) = fileInfo c"
  "uploadedFile (close_socket c) = uploadedFile c"
  "stopPollingRef (close_socket c) = stopPollingRef c"
  "wsRef (close_socket c) = None"
  "toastIdRef (close_socket c) = toastIdRef c"
  "pollingInterval (close_socket c) = pollingInterval c"
  "abortControllers (close_socket c) = abortControllers c"
  "loops (close_socket c) = loops c"
  "requests (close_socket c) = requests c"
  "aborts (close_socket c) = aborts c"
  "toasts (close_socket c) = toasts c"
  "nextToastId (close_socket c) = nextToastId c"
  "clipboard (close_socket c) = clipboard c"
  "downloads (close_socket c) = downloads c"
  "callbacks (close_socket c) = callbacks c"
  "Controller.more (close_socket c) = Controller.more c"
  by (simp_all add: close_socket_def split: option.splits)


lemma dismiss_toast_fields [simp]:
  "uploadState (dismiss_toast c) = uploadState c"
  "transcriptionState (dismiss_toast c) = transcriptionState c"
  "fileInfo (dismiss_toast c) = fileInfo c"
  "uploadedFile (dismiss_toast c) = uploadedFile c"
  "stopPollingRef (dismiss_toast c) = stopPollingRef c"
  "wsRef (dismiss_toast c) = wsRef c"
  "pollingInterval (dismiss_toast c) = pollingInterval c"
  "abortControllers (dismiss_toast c) = abortControllers c"
  "loops (dismiss_toast c) = loops c"
  "sockets (dismiss_toast c) = sockets c"
  "requests (dismiss_toast c) = requests c"
  "aborts (dismiss_toast c) = aborts c"
  "nextToastId (dismiss_toast c) = nextToastId c"
  "clipboard (dismiss_toast c) = clipboard c"
  "downloads (dismiss_toast c) = downloads c"
  "callbacks (dismiss_toast c) = callbacks c"
  "Controller.more (dismiss_toast c) = Controller.more c"
  by (simp_all add: dismiss_toast_def split: option.splits)


lemma mark_cancelled_fields [simp]:
  "uploadState (mark_cancelled cs c) = uploadState c"
  "fileInfo (mark_cancelled cs c) = fileInfo c"
  "uploadedFile (mark_cancelled cs c) = uploadedFile c"
  "stopPollingRef (mark_cancelled cs c) = stopPollingRef c"
  "wsRef (mark_cancelled cs c) = wsRef c"
  "toastIdRef (mark_cancelled cs c) = toastIdRef c"
  "pollingInterval (mark_cancelled cs c) = pollingInterval c"
  "abortControllers (mark_cancelled cs c) = abortControllers c"
  "loops (mark_cancelled cs c) = loops c"
  "sockets (mark_cancelled cs c) = sockets c"
  "requests (mark_cancelled cs c) = requests c"
  "aborts (mark_cancelled cs c) = aborts c"
  "toasts (mark_cancelled cs c) = toasts c"
  "nextToastId (mark_cancelled cs c) = nextToastId c"
  "clipboard (mark_cancelled cs c) = clipboard c"
  "downloads (mark_cancelled cs c) = downloads c"
  "callbacks (mark_cancelled cs c) = callbacks c"
  "Controller.more (mark_cancelled cs c) = Controller.more c"
  by (simp_all add: mark_cancelled_def)


lemma cancel_upload_fields [simp]:
  "transcriptionState (cancel_upload_in_progress cf cu c) = transcriptionState c"
  "fileInfo (cancel_upload_in_progress cf cu c) = fileInfo c"
  "uploadedFile (cancel_upload_in_progress cf cu c) = uploadedFile c"
  "stopPollingRef (cancel_upload_in_progress cf cu c) = stopPollingRef c"
  "wsRef (cancel_upload_in_progress cf cu c) = wsRef c"
  "toastIdRef (cancel_upload_in_progress cf cu c) = toastIdRef c"
  "pollingInterval (cancel_upload_in_progress cf cu c) = pollingInterval c"
  "loops (cancel_upload_in_progress cf cu c) = loops c"
  "sockets (cancel_upload_in_progress cf cu c) = sockets c"
  "requests (cancel_upload_in_progress cf cu c) = requests c"
  "toasts (cancel_upload_in_progress cf cu c) = toasts c"
  "nextToastId (cancel_upload_in_progress cf cu c) = nextToastId c"
  "clipboard (cancel_upload_in_progress cf cu c) = clipboard c"
  "downloads (cancel_upload_in_progress cf cu c) = downloads c"
  "callbacks (cancel_upload_in_progress cf cu c) = callbacks c"
  "Controller.more (cancel_upload_in_progress cf cu c) = Controller.more c"
  by (simp_all add: cancel_upload_in_progress_def cancelUpload_def Let_def split: option.splits)





lemma resurrected_loops:
  "loops resurrected = [\<lparr>lp_taskId = ''t1'', lp_interval = 2000, stopped = True, phase = Scheduled 2000\<rparr>]"
  "requests resurrected = requests (cancel started)"
  by (simp_all add: resurrected_def poll_settle_def cancel_started poll_resume_def is_terminal_def
      Let_def onUpdate_def)

lemma rne_ge: "of_int m \<le> y \<Longrightarrow> m \<le> rne y"
proof -
  assume "of_int m \<le> y"
  then have "m \<le> \<lfloor>y\<rfloor>" by (simp add: le_floor_iff)
  then show ?thesis by (simp add: rne_def Let_def)
qed

lemma rne_le: "y \<le> of_int m \<Longrightarrow> rne y \<le> m"
proof (cases "y = of_int \<lfloor>y\<rfloor>")
  case True
  assume "y \<le> of_int m"
  then have "\<lfloor>y\<rfloor> \<le> m" by (simp add: floor_le_iff)
  moreover from True have "rne y = \<lfloor>y\<rfloor>" by (simp add: rne_def Let_def)
  ultimately show ?thesis by simp
next
  case False
  assume "y \<le> of_int m"
  moreover have "of_int \<lfloor>y\<rfloor> \<le> y" by (rule of_int_floor_le)
  ultimately have "(of_int \<lfloor>y\<rfloor> :: real) < of_int m" using False by linarith
  then have "\<lfloor>y\<rfloor> + 1 \<le> m" by simp
  moreover have "rne y \<le> \<lfloor>y\<rfloor> + 1" by (simp add: rne_def Let_def)
  ultimately show ?thesis by linarith
qed

lemma binade_up_le: "x < 2 ^ Suc k \<Longrightarrow> binade_up x \<le> int k"
proof (induction k arbitrary: x)
  case 0
  then show ?case by (simp add: binade_up.simps [of x])
next
  case (Suc k)
  show ?case
  proof (cases "x < 2")
    case True
    then show ?thesis by (simp add: binade_up.simps [of x])
  next
    case False
    from Suc.prems have "x / 2 < 2 ^ Suc k" by simp
    from Suc.IH [OF this] False show ?thesis by (simp add: binade_up.simps [of x])
  qed
qed

lemma binade_down_le: "binade_down x \<le> 0"
proof (induction x rule: binade_down.induct)
  case (1 x)
  show ?case
  proof (cases "x \<le> 0 \<or> 1 \<le> x")
    case True
    then show ?thesis by (subst binade_down.simps) simp
  next
    case False
    from "1.IH" [OF False] have "binade_down (x * 2) - 1 \<le> 0" by simp
    with False show ?thesis by (subst binade_down.simps) simp
  qed
qed

lemma binade_le: "x < 2 ^ Suc k \<Longrightarrow> binade x \<le> int k"
  using binade_up_le [of x k] binade_down_le [of x] by (simp add: binade_def)

lemma round_double_bounds:
  assumes "\<bar>x\<bar> < 2 ^ 53"
  shows "of_int n \<le> x \<Longrightarrow> of_int n \<le> round_double x"
    and "x \<le> of_int n \<Longrightarrow> round_double x \<le> of_int n"
proof -
  define j where "j = nat (52 - binade \<bar>x\<bar>)"
  from assms have "binade \<bar>x\<bar> \<le> 52" using binade_le [of "\<bar>x\<bar>" 52] by simp
  then have u: "pow2 (binade \<bar>x\<bar> - 52) = 1 / 2 ^ j"
    by (cases "binade \<bar>x\<bar> = 52") (simp_all add: pow2_def j_def)
  have rd: "x \<noteq> 0 \<Longrightarrow> round_double x = of_int (rne (x * 2 ^ j)) / 2 ^ j"
    by (simp add: round_double_def u Let_def)
  {
    assume n: "of_int n \<le> x"
    show "of_int n \<le> round_double x"
    proof (cases "x = 0")
      case True
      with n show ?thesis by (simp add: round_double_def)
    next
      case False
      from n have "of_int (n * 2 ^ j) \<le> x * 2 ^ j" by simp
      then have "n * 2 ^ j \<le> rne (x * 2 ^ j)" by (rule rne_ge)
      then have "(of_int (n * 2 ^ j) :: real) \<le> of_int (rne (x * 2 ^ j))" by (simp only: of_int_le_iff)
      then have "of_int n * 2 ^ j \<le> (of_int (rne (x * 2 ^ j)) :: real)" by simp
      then show ?thesis by (simp add: rd False pos_le_divide_eq)
    qed
  }
  {
    assume n: "x \<le> of_int n"
    show "round_double x \<le> of_int n"
    proof (cases "x = 0")
      case True
      with n show ?thesis by (simp add: round_double_def)
    next
      case False
      from n have "x * 2 ^ j \<le> of_int (n * 2 ^ j)" by simp
      then have "rne (x * 2 ^ j) \<le> n * 2 ^ j" by (rule rne_le)
      then have "(of_int (rne (x * 2 ^ j)) :: real) \<le> of_int (n * 2 ^ j)" by (simp only: of_int_le_iff)
      then have "(of_int (rne (x * 2 ^ j)) :: real) \<le> of_int n * 2 ^ j" by simp
      then show ?thesis by (simp add: rd False pos_divide_le_eq)
    qed
  }
qed

lemma random_progress_bounds:
  assumes "0 \<le> rnd" and "rnd < 1"
  shows "25 \<le> js_add (js_mul rnd 50) 25 \<and> js_add (js_mul rnd 50) 25 \<le> 75"
proof -
  have small: "\<bar>rnd * 50\<bar> < 2 ^ 53" using assms by simp
  have "of_int 0 \<le> rnd * 50" using assms by simp
  from round_double_bounds(1) [OF small this] have lo: "0 \<le> js_mul rnd 50"
    by (simp add: js_mul_def)
  have "rnd * 50 \<le> of_int 50" using assms by simp
  from round_double_bounds(2) [OF small this] have hi: "js_mul rnd 50 \<le> 50"
    by (simp add: js_mul_def)
  have small2: "\<bar>js_mul rnd 50 + 25\<bar> < 2 ^ 53" using lo hi by simp
  have "of_int 25 \<le> js_mul rnd 50 + 25" using lo by simp
  from round_double_bounds(1) [OF small2 this] have a: "25 \<le> js_add (js_mul rnd 50) 25"
    by (simp add: js_add_def)
  have "js_mul rnd 50 + 25 \<le> of_int 75" using hi by simp
  from round_double_bounds(2) [OF small2 this] have b: "js_add (js_mul rnd 50) 25 \<le> 75"
    by (simp add: js_add_def)
  from a b show ?thesis by simp
qed

lemma progress_at_half [simp]: "js_add (js_mul (1/2) 50) 25 = 50"
  by (simp add: js_add_def js_mul_def round_double_def binade_def binade_up.simps pow2_def
      rne_def Let_def)

lemma largest_draw_double: "round_double largest_draw = largest_draw"
  by (simp add: largest_draw_def round_double_def binade_def binade_down.simps pow2_def
      rne_def Let_def)

lemma progress_at_largest_draw: "js_add (js_mul largest_draw 50) 25 = 75"
proof -
  have product: "js_mul largest_draw 50 = 50 - 1 / 2 ^ 47"
    by (simp add: largest_draw_def js_mul_def round_double_def binade_def binade_up.simps
        pow2_def rne_def Let_def)
  have sum: "js_add (50 - 1 / 2 ^ 47) 25 = 75"
    by (simp add: js_add_def round_double_def binade_def binade_up.simps pow2_def rne_def
        Let_def)
  show ?thesis by (simp only: product sum)
qed



section \<open>The polling callback's progress (C10)\<close>

text \<open>
  C10 as stated fails at its upper bound.  \<open>Math.random() * 50 + 25\<close> is computed in
  double precision: for the largest draw below 1, \<open>1 - 2^-53\<close>, the product rounds to
  \<open>50 - 2^-47\<close> and the sum, halfway between two doubles, rounds to the even one,
  which is 75.  The progress is then 75, outside the half-open interval.
\<close>

theorem progress_reaches_75:
  "0 \<le> largest_draw \<and> largest_draw < 1 \<and>
   round_double largest_draw = largest_draw \<and>
   r_status (sample_response ''t1'' processing) = processing \<and>
   progress (transcriptionState
     (onUpdate (sample_response ''t1'' processing) largest_draw started)) = 75"
proof -
  have "0 \<le> largest_draw \<and> largest_draw < 1" by (simp add: largest_draw_def)
  then show ?thesis
    by (simp add: largest_draw_double transcriptionState_onUpdate poll_update_state_def
        poll_progress_def progress_at_largest_draw)
qed

text \<open>
  C10, amended.  For every update delivered by the polling loop the new progress is
  decided by the update's status alone (the response carries no percentage): for
  \<open>processing\<close> it is \<open>Math.random() * 50 + 25\<close> computed in double precision for
  the draw \<open>rnd\<close>, a value in the closed interval from 25 to 75; for \<open>completed\<close> it
  is 100; for \<open>failed\<close> it is 0; otherwise (\<open>pending\<close>) the previous progress is
  kept.
\<close>

theorem poll_update_progress_by_status:
  assumes "0 \<le> rnd" and "rnd < 1"
  shows "progress (transcriptionState (onUpdate update rnd c)) =
           (case r_status update of
              processing \<Rightarrow> js_add (js_mul rnd 50) 25
            | completed \<Rightarrow> 100
            | failed \<Rightarrow> 0
            | pending \<Rightarrow> progress (transcriptionState c)) \<and>
         (r_status update = processing \<longrightarrow>
            25 \<le> progress (transcriptionState (onUpdate update rnd c)) \<and>
            progress (transcriptionState (onUpdate update rnd c)) \<le> 75)"
  using random_progress_bounds [OF assms]
  by (cases "r_status update")
     (simp_all add: transcriptionState_onUpdate poll_update_state_def poll_progress_def)

theorem poll_update_progress_by_status_witness:
  "(0::real) \<le> 1/2 \<and> (1/2::real) < 1 \<and>
   r_status (sample_response ''t1'' processing) = processing \<and>
   progress (transcriptionState (onUpdate (sample_response ''t1'' processing) (1/2) started)) = 50"
  using poll_update_progress_by_status [of "1/2" "sample_response ''t1'' processing" started]
  by simp

section \<open>Reconciliation of poll and push updates (C1, C2)\<close>

text \<open>
  C1 as stated fails.  A stale push progress frame lowers the displayed progress from
  80 to 5 within the phase \<open>processing\<close>, and a push status frame that arrives after
  the polling loop has delivered \<open>completed\<close> moves the status back to
  \<open>processing\<close>: neither update is dropped.
\<close>

theorem stale_updates_overwrite:
  "progress (transcriptionState (ws_message 0 (ProgressFrame (Some 80) None None) started)) = 80 \<and>
   status (transcriptionState (ws_message 0 (ProgressFrame (Some 80) None None) started)) = processing \<and>
   progress (transcriptionState (ws_message 0 (ProgressFrame (Some 5) None None)
      (ws_message 0 (ProgressFrame (Some 80) None None) started))) = 5 \<and>
   status (transcriptionState (ws_message 0 (ProgressFrame (Some 5) None None)
      (ws_message 0 (ProgressFrame (Some 80) None None) started))) = processing \<and>
   status (transcriptionState finished) = completed \<and>
   status (transcriptionState (ws_message 0 (StatusFrame processing None) finished)) = processing \<and>
   phase_rank processing < phase_rank completed"
  by (simp add: ws_message_def started_value transcriptionState_onMessage onMessage_def
      toast_def truthy_id_def or_number_def finished_state phase_rank_def)

text \<open>
  C1, amended.  The controller applies every update as it arrives, without comparing
  it with the current state (last write wins).  After any sequence of poll updates
  and push frames the status is the one written by the last update of the sequence
  that carries a status (a poll update and a status frame carry their own, a result
  frame \<open>completed\<close>, an error frame \<open>failed\<close>; progress frames carry none), and the
  initial status if there is none.  So one update keeps the phase from decreasing
  exactly when the phase it carries is not earlier than the current one.  The
  progress after a progress frame is the frame's value (0 if it has none), after a
  status frame the frame's value (the previous progress if it has none or has 0),
  after a poll update the value the polling callback computes from the update's
  status.
\<close>

theorem updates_last_write_wins:
  "status (transcriptionState (deliver_all us c)) =
     last (status (transcriptionState c) # List.map_filter carried_status us) \<and>
   (phase_rank (status (transcriptionState c)) \<le> phase_rank (status (transcriptionState (deliver u c))))
     = (case carried_status u of
          Some st \<Rightarrow> phase_rank (status (transcriptionState c)) \<le> phase_rank st
        | None \<Rightarrow> True) \<and>
   progress (transcriptionState (deliver (PushFrame (ProgressFrame p sg msg)) c)) = or_number p 0 \<and>
   progress (transcriptionState (deliver (PushFrame (StatusFrame st q)) c)) =
     or_number q (progress (transcriptionState c)) \<and>
   progress (transcriptionState (deliver (PollUpdate r rnd) c)) =
     poll_progress (r_status r) rnd (progress (transcriptionState c))"
  by (simp add: status_deliver_all status_deliver transcriptionState_onUpdate
      transcriptionState_onMessage poll_update_state_def split: option.split)

text \<open>
  C2 as stated fails (scenario C of the specification).  The polling loop delivers the
  completed task, so the job state is \<open>completed\<close> with its result and no error; a
  push error frame that arrives afterwards sets the status to \<open>failed\<close> and the
  error to the frame's text.
\<close>

theorem terminal_state_overwritten:
  "status (transcriptionState finished) = completed \<and>
   result (transcriptionState finished) = Some sample_result \<and>
   error (transcriptionState finished) = None \<and>
   status (transcriptionState (ws_message 0 (ErrorFrame (Some ''boom'')) finished)) = failed \<and>
   error (transcriptionState (ws_message 0 (ErrorFrame (Some ''boom'')) finished)) = Some ''boom''"
  by (simp add: ws_message_def finished_state transcriptionState_onMessage)

text \<open>
  C2, amended.  In every state of the job, a terminal one included, an update changes
  the fields it carries and only those: a push progress frame (and a frame of an
  unknown type) leaves status, result and error unchanged; a status frame replaces
  the status and leaves result and error; a result frame sets \<open>completed\<close> and the
  result (to what the frame holds) and leaves the error; an error frame sets \<open>failed\<close> and the error and
  leaves the result; a poll update replaces status and result and leaves the error.
\<close>

theorem fields_kept_by_updates:
  "status (transcriptionState (deliver (PushFrame (ProgressFrame p sg msg)) c)) = status (transcriptionState c) \<and>
   result (transcriptionState (deliver (PushFrame (ProgressFrame p sg msg)) c)) = result (transcriptionState c) \<and>
   error (transcriptionState (deliver (PushFrame (ProgressFrame p sg msg)) c)) = error (transcriptionState c) \<and>
   transcriptionState (deliver (PushFrame UnknownFrame) c) = transcriptionState c \<and>
   status (transcriptionState (deliver (PushFrame (StatusFrame st q)) c)) = st \<and>
   result (transcriptionState (deliver (PushFrame (StatusFrame st q)) c)) = result (transcriptionState c) \<and>
   error (transcriptionState (deliver (PushFrame (StatusFrame st q)) c)) = error (transcriptionState c) \<and>
   status (transcriptionState (deliver (PushFrame (ResultFrame r)) c)) = completed \<and>
   result (transcriptionState (deliver (PushFrame (ResultFrame r)) c)) = r \<and>
   error (transcriptionState (deliver (PushFrame (ResultFrame r)) c)) = error (transcriptionState c) \<and>
   status (transcriptionState (deliver (PushFrame (ErrorFrame e)) c)) = failed \<and>
   result (transcriptionState (deliver (PushFrame (ErrorFrame e)) c)) = result (transcriptionState c) \<and>
   error (transcriptionState (deliver (PushFrame (ErrorFrame e)) c)) = e \<and>
   status (transcriptionState (deliver (PollUpdate u rnd) c)) = r_status u \<and>
   result (transcriptionState (deliver (PollUpdate u rnd) c)) = Some u \<and>
   error (transcriptionState (deliver (PollUpdate u rnd) c)) = error (transcriptionState c)"
  by (simp add: transcriptionState_onUpdate transcriptionState_onMessage poll_update_state_def)

section \<open>The invariant of the job state (C4)\<close>

text \<open>
  C4 as stated fails.  On a fresh hook a job is started and its polling loop fetches
  the task as failed, with an error text in the response: the callback stores the
  response as the result and sets the status, and the error field of the job state
  stays empty.
\<close>

theorem failed_without_error:
  "state_invariant (transcriptionState initialController) \<and>
   state_invariant (transcriptionState started) \<and>
   status (transcriptionState failed_by_poll) = failed \<and>
   error (transcriptionState failed_by_poll) = None \<and>
   \<not> state_invariant (transcriptionState failed_by_poll)"
  by (simp add: failed_by_poll_def poll_settle_def poll_resume_def started_value is_terminal_def
      sample_response_def Let_def transcriptionState_onUpdate poll_update_state_def
      state_invariant_def initialController_def initialTranscriptionState_def)

text \<open>
  C4, amended.  The invariant (\<open>completed\<close> comes with a result, \<open>failed\<close> with an
  error) holds in the initial state, and from a state in which it holds it still holds
  after a push progress frame, a push result frame that carries a result, a push error
  frame that carries an error text, a poll update whose status is not \<open>failed\<close>,
  \<open>cancel\<close>, and a submission that fails.
\<close>

theorem invariant_preserved:
  assumes "state_invariant (transcriptionState c)"
  shows "state_invariant (transcriptionState initialController) \<and>
         state_invariant (transcriptionState (deliver (PushFrame (ProgressFrame p sg msg)) c)) \<and>
         state_invariant (transcriptionState (deliver (PushFrame (ResultFrame (Some r))) c)) \<and>
         state_invariant (transcriptionState (deliver (PushFrame (ErrorFrame (Some e))) c)) \<and>
         (r_status u \<noteq> failed \<longrightarrow>
            state_invariant (transcriptionState (deliver (PollUpdate u rnd) c))) \<and>
         state_invariant (transcriptionState (cancel c)) \<and>
         state_invariant (transcriptionState (startTranscription fileId options (Inl err) ws_ok c))"
  using assms
  by (simp add: state_invariant_def transcriptionState_onUpdate transcriptionState_onMessage
      poll_update_state_def transcriptionState_cancel transcriptionState_start_failed
      initialController_def initialTranscriptionState_def)

theorem invariant_preserved_witness:
  "state_invariant (transcriptionState started) \<and>
   state_invariant (transcriptionState
     (deliver (PushFrame (ResultFrame (Some sample_result))) started)) \<and>
   status (transcriptionState
     (deliver (PushFrame (ResultFrame (Some sample_result))) started)) = completed \<and>
   state_invariant (transcriptionState (deliver (PushFrame (ErrorFrame (Some ''boom''))) started)) \<and>
   r_status sample_result \<noteq> failed \<and>
   state_invariant (transcriptionState (deliver (PollUpdate sample_result 0) started)) \<and>
   state_invariant (transcriptionState (cancel started)) \<and>
   status (transcriptionState (cancel started)) = failed \<and>
   state_invariant (transcriptionState
     (startTranscription ''f1'' sample_options (Inl (APIError ''bad model'' (Some 422))) True started))"
proof -
  have h: "state_invariant (transcriptionState started)"
    by (simp add: started_value state_invariant_def)
  from invariant_preserved [OF h, of None None None sample_result "''boom''" sample_result 0
      "''f1''" sample_options "APIError ''bad model'' (Some 422)" True]
  show ?thesis
    using h
    by (simp add: sample_result_def sample_response_def transcriptionState_onMessage
        transcriptionState_cancel started_value)
qed

section \<open>The polling loop (C5, C3)\<close>

text \<open>
  C5 as stated fails when the callback throws.  \<open>onUpdate(response)\<close> is called inside
  the \<open>try\<close> of \<open>poll\<close>, before the test for a terminal status.  With a callback that
  throws, a fetch that returns the completed task does not stop the loop: the
  \<open>catch\<close> branch sets the timer to twice the base interval, \<open>stopped\<close> stays false,
  and the loop polls on, round after round.  A fetch with a status that is not terminal
  is rescheduled at twice the base interval, not at the base interval.  In the hook
  the callback throws when the \<open>onSuccess\<close> option does: the job state is
  \<open>completed\<close> and loop 0 is still scheduled.
\<close>

theorem throwing_callback_keeps_loop_alive:
  "is_terminal (r_status sample_result) \<and>
   poll_resume (Inr sample_result) True sample_loop =
     (\<lparr>lp_taskId = ''t1'', lp_interval = 2000, stopped = False, phase = Scheduled 4000\<rparr>,
      Some sample_result) \<and>
   poll_rounds [(Inr sample_result, True), (Inr sample_result, True)] sample_loop =
     ([4000, 4000],
      \<lparr>lp_taskId = ''t1'', lp_interval = 2000, stopped = False, phase = InFlight\<rparr>) \<and>
   \<not> is_terminal (r_status (sample_response ''t1'' processing)) \<and>
   poll_resume (Inr (sample_response ''t1'' processing)) True sample_loop =
     (\<lparr>lp_taskId = ''t1'', lp_interval = 2000, stopped = False, phase = Scheduled 4000\<rparr>,
      Some (sample_response ''t1'' processing)) \<and>
   status (transcriptionState (poll_settle 0 (Inr sample_result) 0 True started)) = completed \<and>
   loops (poll_settle 0 (Inr sample_result) 0 True started) =
     [\<lparr>lp_taskId = ''t1'', lp_interval = 2000, stopped = False, phase = Scheduled 4000\<rparr>]"
proof -
  have loop: "is_terminal (r_status sample_result) \<and>
      poll_resume (Inr sample_result) True sample_loop =
        (\<lparr>lp_taskId = ''t1'', lp_interval = 2000, stopped = False, phase = Scheduled 4000\<rparr>,
         Some sample_result) \<and>
      poll_rounds [(Inr sample_result, True), (Inr sample_result, True)] sample_loop =
        ([4000, 4000],
         \<lparr>lp_taskId = ''t1'', lp_interval = 2000, stopped = False, phase = InFlight\<rparr>) \<and>
      \<not> is_terminal (r_status (sample_response ''t1'' processing)) \<and>
      poll_resume (Inr (sample_response ''t1'' processing)) True sample_loop =
        (\<lparr>lp_taskId = ''t1'', lp_interval = 2000, stopped = False, phase = Scheduled 4000\<rparr>,
         Some (sample_response ''t1'' processing))"
    by (simp add: sample_loop_def new_loop_def poll_begin_def poll_resume_def is_terminal_def
        sample_result_def Let_def)
  have hook: "status (transcriptionState (poll_settle 0 (Inr sample_result) 0 True started))
        = completed \<and>
      loops (poll_settle 0 (Inr sample_result) 0 True started) =
        [\<lparr>lp_taskId = ''t1'', lp_interval = 2000, stopped = False, phase = Scheduled 4000\<rparr>]"
    by (simp add: poll_settle_def poll_resume_def started_value is_terminal_def sample_result_def
        Let_def onUpdate_def poll_update_state_def toast_def truthy_id_def)
  from loop hook show ?thesis by simp
qed

text \<open>
  C5, amended.  When a status request of the polling loop fails, the loop does not stop
  and hands nothing to the callback: it sets the timer for the next attempt to twice
  the base interval, and the job state, the upload state, the notifications and the
  \<open>onError\<close> option are untouched.  When the request succeeds and the callback
  returns, a status that is not terminal sets the timer to the base interval, and a
  terminal status (\<open>completed\<close> or \<open>failed\<close>) makes the loop mark itself stopped and
  set no timer, so it never runs again.  Over any run of rounds every delay is the
  base interval or twice the base interval: the backoff does not grow.
\<close>

theorem poll_backoff:
  "poll_resume (Inl e) t l = (l\<lparr>phase := Scheduled (lp_interval l * 2)\<rparr>, None) \<and>
   (\<not> is_terminal (r_status r) \<longrightarrow>
      poll_resume (Inr r) False l = (l\<lparr>phase := Scheduled (lp_interval l)\<rparr>, Some r)) \<and>
   (is_terminal (r_status r') \<longrightarrow>
      poll_resume (Inr r') False l = (l\<lparr>stopped := True, phase := Finished\<rparr>, Some r') \<and>
      poll_begin (fst (poll_resume (Inr r') False l)) = fst (poll_resume (Inr r') False l) \<and>
      poll_rounds rounds (fst (poll_resume (Inr r') False l))
        = ([], fst (poll_resume (Inr r') False l))) \<and>
   (\<forall>d \<in> set (fst (poll_rounds rounds l)). d = lp_interval l \<or> d = lp_interval l * 2) \<and>
   transcriptionState (poll_settle i (Inl e) rnd t c) = transcriptionState c \<and>
   uploadState (poll_settle i (Inl e) rnd t c) = uploadState c \<and>
   toasts (poll_settle i (Inl e) rnd t c) = toasts c \<and>
   callbacks (poll_settle i (Inl e) rnd t c) = callbacks c"
proof -
  have "poll_rounds rounds (l\<lparr>stopped := True, phase := Finished\<rparr>)
          = ([], l\<lparr>stopped := True, phase := Finished\<rparr>)"
    by (cases rounds) auto
  moreover have "\<forall>d \<in> set (fst (poll_rounds rounds l)). d = lp_interval l \<or> d = lp_interval l * 2"
    using poll_rounds_delays by blast
  ultimately show ?thesis
    by (simp add: poll_resume_def poll_begin_def poll_settle_def Let_def)
qed

theorem poll_backoff_witness:
  "poll_resume (Inl timeout_error) False sample_loop =
     (\<lparr>lp_taskId = ''t1'', lp_interval = 2000, stopped = False, phase = Scheduled 4000\<rparr>, None) \<and>
   \<not> is_terminal (r_status (sample_response ''t1'' processing)) \<and>
   poll_resume (Inr (sample_response ''t1'' processing)) False sample_loop =
     (\<lparr>lp_taskId = ''t1'', lp_interval = 2000, stopped = False, phase = Scheduled 2000\<rparr>,
      Some (sample_response ''t1'' processing)) \<and>
   is_terminal (r_status sample_result) \<and>
   poll_resume (Inr sample_result) False sample_loop =
     (\<lparr>lp_taskId = ''t1'', lp_interval = 2000, stopped = True, phase = Finished\<rparr>,
      Some sample_result) \<and>
   fst (poll_rounds [(Inl timeout_error, False), (Inl timeout_error, False),
          (Inr (sample_response ''t1'' processing), False), (Inr sample_result, False),
          (Inr (sample_response ''t1'' processing), False)] sample_loop)
     = [4000, 4000, 2000] \<and>
   transcriptionState (poll_settle 0 (Inl timeout_error) 0 False started) = transcriptionState started"
  using poll_backoff [of timeout_error False sample_loop "sample_response ''t1'' processing"
      sample_result
      "[(Inl timeout_error, False), (Inl timeout_error, False),
        (Inr (sample_response ''t1'' processing), False), (Inr sample_result, False),
        (Inr (sample_response ''t1'' processing), False)]" 0 0 started]
  by (simp add: sample_loop_def new_loop_def poll_begin_def poll_resume_def is_terminal_def
      sample_result_def Let_def)

text \<open>
  C3.  The claim asks that after the stop handle is invoked no update is delivered any
  more, the one of a request in flight included.  On the code the request in flight
  still delivers: \<open>poll\<close> tests \<open>stopped\<close> only before it issues a request, not
  after the request has settled.  A job is started, \<open>cancel\<close> stops its polling loop
  while the first status request is in flight and marks the job as failed (cancelled by
  the user); when the request settles with status \<open>processing\<close> the update is handed
  to the callback, and the job state is \<open>processing\<close> again with progress 50.  The
  timer the loop then sets fires into the stopped loop, which ends without a further
  request: the job state stays \<open>processing\<close>.
\<close>

theorem in_flight_update_delivered_after_stop:
  "stopPollingRef started = Some 0 \<and>
   phase (loops started ! 0) = InFlight \<and>
   stopped (loops (cancel started) ! 0) \<and>
   status (transcriptionState (cancel started)) = failed \<and>
   error (transcriptionState (cancel started)) = Some msg_cancelled_by_user \<and>
   snd (poll_resume (Inr (sample_response ''t1'' processing)) False (loops (cancel started) ! 0))
     = Some (sample_response ''t1'' processing) \<and>
   status (transcriptionState resurrected) = processing \<and>
   progress (transcriptionState resurrected) = 50 \<and>
   result (transcriptionState resurrected) = Some (sample_response ''t1'' processing) \<and>
   phase (loops (poll_tick 0 resurrected) ! 0) = Finished \<and>
   requests (poll_tick 0 resurrected) = requests (cancel started)"
proof -
  have before: "stopPollingRef started = Some 0 \<and> phase (loops started ! 0) = InFlight"
    by (simp add: started_value)
  have after: "stopped (loops (cancel started) ! 0) \<and>
      status (transcriptionState (cancel started)) = failed \<and>
      error (transcriptionState (cancel started)) = Some msg_cancelled_by_user \<and>
      snd (poll_resume (Inr (sample_response ''t1'' processing)) False (loops (cancel started) ! 0))
        = Some (sample_response ''t1'' processing)"
    by (simp add: cancel_started poll_resume_def is_terminal_def)
  have settle: "transcriptionState resurrected
      = poll_update_state (sample_response ''t1'' processing) (1/2) (transcriptionState (cancel started))"
    by (simp add: resurrected_def poll_settle_def cancel_started poll_resume_def is_terminal_def
        Let_def transcriptionState_onUpdate)
  have tick: "phase (loops (poll_tick 0 resurrected) ! 0) = Finished \<and>
      requests (poll_tick 0 resurrected) = requests (cancel started)"
    by (simp add: poll_tick_def resurrected_loops poll_begin_def Let_def)
  show ?thesis
    using before after tick
    by (simp add: settle poll_update_state_def poll_progress_def)
qed

section \<open>Starting a job while one is active (C6)\<close>

text \<open>
  C6 as stated fails.  \<open>startTranscription\<close> is called while the job \<open>t1\<close> is
  active: the call is not rejected, the job state now shows task \<open>t2\<close>, and there
  are two running polling loops and two open sockets; the refs point to the new ones.
\<close>

theorem second_start_overwrites:
  "taskId (transcriptionState started) = Some ''t1'' \<and>
   stopPollingRef started = Some 0 \<and> wsRef started = Some 0 \<and>
   taskId (transcriptionState restarted) = Some ''t2'' \<and>
   loops restarted =
     [\<lparr>lp_taskId = ''t1'', lp_interval = 2000, stopped = False, phase = InFlight\<rparr>,
      \<lparr>lp_taskId = ''t2'', lp_interval = 2000, stopped = False, phase = InFlight\<rparr>] \<and>
   sockets restarted =
     [\<lparr>ws_taskId = ''t1'', closed = False\<rparr>, \<lparr>ws_taskId = ''t2'', closed = False\<rparr>] \<and>
   stopPollingRef restarted = Some 1 \<and> wsRef restarted = Some 1"
  by (simp add: restarted_def started_value startTranscription_def pollTaskStatus_def
      connectWebSocket_def toast_def toast_id_def new_loop_def poll_begin_def Let_def
      sample_response_def)

text \<open>
  C6, amended.  \<open>startTranscription\<close> checks no precondition.  In every state, when
  the submission succeeds, it replaces the job state by a fresh one that holds the new
  task id and the status of the response, appends a new polling loop (in flight, not
  stopped) to those that exist and points \<open>stopPollingRef\<close> to it, and, when the
  socket can be created, appends a new open socket and points \<open>wsRef\<close> to it; the
  loops and sockets that existed before are neither stopped nor closed.
\<close>

theorem startTranscription_unguarded:
  "transcriptionState (startTranscription fileId options (Inr r) ws_ok c) =
     \<lparr>taskId = Some (task_id r), status = r_status r, progress = 0, stage = None,
      message = None, result = None, error = None\<rparr> \<and>
   loops (startTranscription fileId options (Inr r) ws_ok c) =
     loops c @ [\<lparr>lp_taskId = task_id r, lp_interval = pollingInterval c, stopped = False,
                 phase = InFlight\<rparr>] \<and>
   stopPollingRef (startTranscription fileId options (Inr r) ws_ok c) = Some (length (loops c)) \<and>
   sockets (startTranscription fileId options (Inr r) True c) =
     sockets c @ [\<lparr>ws_taskId = task_id r, closed = False\<rparr>] \<and>
   wsRef (startTranscription fileId options (Inr r) True c) = Some (length (sockets c)) \<and>
   sockets (startTranscription fileId options (Inr r) False c) = sockets c \<and>
   requests (startTranscription fileId options (Inr r) ws_ok c) =
     requests c @ [TranscribeReq fileId options, StatusReq (task_id r)]"
  by (simp add: startTranscription_def pollTaskStatus_def connectWebSocket_def toast_def
      toast_id_def new_loop_def poll_begin_def Let_def)

section \<open>A failed upload (C7)\<close>

text \<open>
  C7.  When the upload fails with error \<open>e\<close>, \<open>uploadFile\<close> returns null, sets
  \<open>uploadState.error\<close> to the failure message (the message of an \<open>APIError\<close>, which
  is what every failure path of \<open>api.uploadFile\<close> rejects with) and \<open>uploading\<close> to
  false, and leaves the job state as it was, so a pending job stays pending.
  \<open>processFile\<close> then stops: its result is the state \<open>uploadFile\<close> left, the only
  request issued is the upload itself (no job is submitted), and no polling loop or
  socket is created.
\<close>

theorem upload_failure_short_circuits:
  "fst (uploadFile f progs (Inl e) info_outcome c) = None \<and>
   u_error (uploadState (snd (uploadFile f progs (Inl e) info_outcome c)))
     = Some (error_message e msg_upload_failed) \<and>
   error_message (APIError m st) msg_upload_failed = m \<and>
   uploading (uploadState (snd (uploadFile f progs (Inl e) info_outcome c))) = False \<and>
   transcriptionState (snd (uploadFile f progs (Inl e) info_outcome c)) = transcriptionState c \<and>
   status (transcriptionState (snd (uploadFile f progs (Inl e) info_outcome initialController)))
     = pending \<and>
   processFile f options progs (Inl e) info_outcome outcome ws_ok c
     = snd (uploadFile f progs (Inl e) info_outcome c) \<and>
   requests (processFile f options progs (Inl e) info_outcome outcome ws_ok c)
     = requests c @ [UploadReq f] \<and>
   loops (processFile f options progs (Inl e) info_outcome outcome ws_ok c) = loops c \<and>
   sockets (processFile f options progs (Inl e) info_outcome outcome ws_ok c) = sockets c \<and>
   stopPollingRef (processFile f options progs (Inl e) info_outcome outcome ws_ok c)
     = stopPollingRef c"
  by (simp add: processFile_def uploadFile_failed error_message_def initialController_def
      initialTranscriptionState_def)

section \<open>cancel (C8)\<close>




section \<open>Download and copy (C9)\<close>

text \<open>
  C9 as stated fails.  Right after a job is started the job state has a task id and no
  result; \<open>downloadResult\<close> does not fail: it requests the artifact of task \<open>t1\<close>
  and saves it.
\<close>

theorem download_without_result:
  "result (transcriptionState started) = None \<and>
   requests (downloadResult dl_txt (Inr ''icerik'') started)
     = requests started @ [DownloadReq ''t1'' dl_txt] \<and>
   downloads (downloadResult dl_txt (Inr ''icerik'') started) = [(''transcript.txt'', ''icerik'')]"
  by (simp add: downloadResult_def started_value Let_def toast_def toast_id_def format_name_def)

text \<open>
  C9, amended.  \<open>downloadResult\<close> tests the task id, not the result: when the task
  id is absent or empty it only raises the no-result notification and issues no
  request and saves nothing.  \<open>copyToClipboard\<close> tests the text of the result: when
  the result or its text is absent or empty it only raises its notification and
  writes nothing to the clipboard.  In every state both operations leave the upload
  state and the job state unchanged.
\<close>

theorem download_and_copy_guards:
  "((taskId (transcriptionState c) = None \<or> taskId (transcriptionState c) = Some []) \<longrightarrow>
      downloadResult fmt outcome c = toast ErrorKind (Lit msg_no_result) None None c \<and>
      requests (downloadResult fmt outcome c) = requests c \<and>
      downloads (downloadResult fmt outcome c) = downloads c) \<and>
   ((result_text (transcriptionState c) = None \<or> result_text (transcriptionState c) = Some []) \<longrightarrow>
      copyToClipboard clip_ok c = toast ErrorKind (Lit msg_no_text) None None c \<and>
      clipboard (copyToClipboard clip_ok c) = clipboard c) \<and>
   uploadState (downloadResult fmt outcome c) = uploadState c \<and>
   transcriptionState (downloadResult fmt outcome c) = transcriptionState c \<and>
   uploadState (copyToClipboard clip_ok c) = uploadState c \<and>
   transcriptionState (copyToClipboard clip_ok c) = transcriptionState c"
  by (auto simp: downloadResult_def copyToClipboard_def Let_def toast_def toast_id_def
      split: option.splits sum.splits)

theorem download_and_copy_guards_witness:
  "taskId (transcriptionState initialController) = None \<and>
   downloadResult dl_srt (Inr ''x'') initialController
     = toast ErrorKind (Lit msg_no_result) None None initialController \<and>
   requests (downloadResult dl_srt (Inr ''x'') initialController) = [] \<and>
   downloads (downloadResult dl_srt (Inr ''x'') initialController) = [] \<and>
   result_text (transcriptionState started) = None \<and>
   copyToClipboard True started = toast ErrorKind (Lit msg_no_text) None None started \<and>
   clipboard (copyToClipboard True started) = [] \<and>
   transcriptionState (copyToClipboard True finished) = transcriptionState finished \<and>
   transcriptionState (downloadResult dl_json (Inr ''{}'') finished) = transcriptionState finished"
proof -
  have no_task: "taskId (transcriptionState initialController) = None"
    by (simp add: initialController_def initialTranscriptionState_def)
  have no_text: "result_text (transcriptionState started) = None"
    by (simp add: started_value result_text_def)
  have empty: "requests initialController = [] \<and> downloads initialController = [] \<and>
      clipboard started = []"
    by (simp add: initialController_def started_value)
  from download_and_copy_guards [of initialController dl_srt "Inr ''x''" True] no_task
  have d: "downloadResult dl_srt (Inr ''x'') initialController
             = toast ErrorKind (Lit msg_no_result) None None initialController \<and>
           requests (downloadResult dl_srt (Inr ''x'') initialController) = requests initialController \<and>
           downloads (downloadResult dl_srt (Inr ''x'') initialController) = downloads initialController"
    by blast
  from download_and_copy_guards [of started dl_srt "Inr ''x''" True] no_text
  have c: "copyToClipboard True started = toast ErrorKind (Lit msg_no_text) None None started \<and>
           clipboard (copyToClipboard True started) = clipboard started"
    by blast
  from download_and_copy_guards [of finished dl_json "Inr ''{}''" True]
  have f: "transcriptionState (copyToClipboard True finished) = transcriptionState finished \<and>
           transcriptionState (downloadResult dl_json (Inr ''{}'') finished) = transcriptionState finished"
    by blast
  from no_task no_text empty d c f show ?thesis
    by (simp add: toast_def)
qed

end
